theory Spec2Isabelle
  imports Complex_Main "HOL-Library.Word"
begin

section \<open>The Argus Monitor plugin for Afterburner (src/main.cpp)\<close>

text \<open>
  The plugin is one C++ file. A background thread attaches to the shared memory segment
  that Argus Monitor publishes, finds the temperature sensor labelled "T Sensor" in it and
  caches a pointer to its record; the host calls \<open>GetSourceData\<close> to read the value
  through that pointer.

  The embedding passes the state explicitly. The Win32 calls are the environment: what
  each call returns is taken from a record, and every call made is appended to a log, so
  that the order of the calls and the resources still held can be stated. A dereference
  of a pointer that has nothing readable behind it is a \<open>fault\<close>.
\<close>

subsection \<open>Infrastructure\<close>

type_synonym u32 = "32 word"
type_synonym f32 = real
type_synonym wchar = "16 word"

text \<open>A \<open>HANDLE\<close> and a pointer are addresses; 0 is \<open>nullptr\<close>.\<close>

type_synonym HANDLE = nat
type_synonym addr = nat

datatype fault = NullDereference | AccessViolation | OutOfBounds

text \<open>The Win32 calls the file makes, with their arguments (and result, for the opening calls).\<close>

datatype os_call =
    OpenFileMappingW HANDLE
  | MapViewOfFile HANDLE addr
  | OpenMutexW HANDLE
  | CloseHandle HANDLE
  | UnmapViewOfFile addr
  | WaitForSingleObject HANDLE
  | ReleaseMutex HANDLE
  | Sleep nat

text \<open>
  What the three opening calls of \<open>Argus_Init\<close> return when they are made; 0 is failure
  (the publisher is not running, so the named objects do not exist).
\<close>

record Win32 =
  ret_OpenFileMappingW :: HANDLE
  ret_MapViewOfFile :: addr
  ret_OpenMutexW :: HANDLE

text \<open>
  Resource accounting over a log of calls: a successful opening call acquires a handle or a
  view, \<open>CloseHandle\<close> and \<open>UnmapViewOfFile\<close> release one. \<open>held\<close> is what a log leaves
  acquired and not yet released.
\<close>

datatype resource = Handle HANDLE | View addr

fun held :: "os_call list \<Rightarrow> resource list \<Rightarrow> resource list" where
  "held [] rs = rs"
| "held (OpenFileMappingW h # cs) rs = held cs (if h \<noteq> 0 then Handle h # rs else rs)"
| "held (MapViewOfFile f p # cs) rs = held cs (if p \<noteq> 0 then View p # rs else rs)"
| "held (OpenMutexW h # cs) rs = held cs (if h \<noteq> 0 then Handle h # rs else rs)"
| "held (CloseHandle h # cs) rs = held cs (remove1 (Handle h) rs)"
| "held (UnmapViewOfFile p # cs) rs = held cs (remove1 (View p) rs)"
| "held (WaitForSingleObject h # cs) rs = held cs rs"
| "held (ReleaseMutex h # cs) rs = held cs rs"
| "held (Sleep n # cs) rs = held cs rs"

subsection \<open>The published segment (argus\_monitor\_data\_api.h, not in the repository)\<close>

text \<open>
  The header is not under src/. The fields the code reads are modelled with the types the
  code uses them at: \<open>Label\<close> is a wide string compared by \<open>wcscmp\<close>, \<open>Value\<close> is a
  number converted to \<open>f32\<close>, the counters and table entries are \<open>u32\<close>. The arrays are
  lists; an index beyond a list is \<open>OutOfBounds\<close>.
\<close>

record ArgusMonitorSensorData =
  Label :: "wchar list"
  Value :: real

record ArgusMonitorData =
  Signature :: u32
  CycleCounter :: u32
  OffsetForSensorType :: "u32 list"
  SensorCount :: "u32 list"
  SensorData :: "ArgusMonitorSensorData list"

text \<open>
  Memory as the plugin sees it: the segment readable at an address, if any. One iteration
  of the poller and one call of \<open>GetSourceData\<close> each read one snapshot.
\<close>

type_synonym memory = "addr \<Rightarrow> ArgusMonitorData option"

definition deref :: "memory \<Rightarrow> addr \<Rightarrow> fault + ArgusMonitorData" where
  "deref mem p =
     (if p = 0 then Inl NullDereference
      else case mem p of None \<Rightarrow> Inl AccessViolation | Some d \<Rightarrow> Inr d)"

text \<open>
  A pointer to a sensor record: \<open>(p, k)\<close> is \<open>&((ArgusMonitorData*)p)->SensorData[k]\<close>.
\<close>

type_synonym sensor_ptr = "addr \<times> nat"

definition deref_sensor :: "memory \<Rightarrow> sensor_ptr \<Rightarrow> fault + ArgusMonitorSensorData" where
  "deref_sensor mem sp =
     (case deref mem (fst sp) of
        Inl f \<Rightarrow> Inl f
      | Inr d \<Rightarrow> if snd sp < length (SensorData d) then Inr (SensorData d ! snd sp)
                 else Inl OutOfBounds)"

text \<open>
  \<open>wcscmp\<close> on wide strings held in arrays: characters are compared up to the first
  difference or the terminating 0; the end of the list counts as the terminator.
\<close>

fun wcscmp :: "wchar list \<Rightarrow> wchar list \<Rightarrow> int" where
  "wcscmp [] [] = 0"
| "wcscmp [] (b # bs) = (if b = 0 then 0 else - 1)"
| "wcscmp (a # as) [] = (if a = 0 then 0 else 1)"
| "wcscmp (a # as) (b # bs) =
     (if a < b then - 1 else if b < a then 1 else if a = 0 then 0 else wcscmp as bs)"

text \<open>The wide string literal \<open>L"T Sensor"\<close>.\<close>

definition T_Sensor :: "wchar list" where
  "T_Sensor = [0x54, 0x20, 0x53, 0x65, 0x6E, 0x73, 0x6F, 0x72]"

subsection \<open>State\<close>

record ArgusState =
  initialized :: bool
  file_h :: HANDLE
  data :: addr
  dataMutex :: HANDLE

text \<open>The handle of the polling thread is the field \<open>thread\<close> of the source's ThreadState.\<close>

record ThreadState =
  poll :: bool
  dataAvailable :: bool
  lastCycleCounter :: u32
  threadHandle :: HANDLE
  waterSensor :: "sensor_ptr option"

record State =
  argus :: ArgusState
  thread :: ThreadState

text \<open>The value-initialised structs (\<open>s = {}\<close>, \<open>ts = {}\<close>, \<open>state = {}\<close>).\<close>

definition ArgusState_zero :: ArgusState where
  "ArgusState_zero = \<lparr>initialized = False, file_h = 0, data = 0, dataMutex = 0\<rparr>"

definition ThreadState_zero :: ThreadState where
  "ThreadState_zero =
     \<lparr>poll = False, dataAvailable = False, lastCycleCounter = 0, threadHandle = 0,
      waterSensor = None\<rparr>"

definition State_zero :: State where
  "State_zero = \<lparr>argus = ArgusState_zero, thread = ThreadState_zero\<rparr>"

subsection \<open>Argus API\<close>

text \<open>\<open>Argus_Deinit\<close>: the new state and the calls made, in order.\<close>

definition Argus_Deinit :: "ArgusState \<Rightarrow> ArgusState \<times> os_call list" where
  "Argus_Deinit s =
     (let t1 = (if dataMutex s \<noteq> 0 then [CloseHandle (dataMutex s)] else []);
          t2 = (if data s \<noteq> 0 then t1 @ [UnmapViewOfFile (data s)] else t1);
          t3 = (if file_h s \<noteq> 0 then t2 @ [CloseHandle (file_h s)] else t2)
      in (ArgusState_zero, t3))"

text \<open>
  The deferred block of \<open>Argus_Init\<close>, run at every exit of the function:
  \<open>defer { if (!success) Argus_Deinit(s); }\<close>.
\<close>

definition Argus_Init_defer ::
  "bool \<Rightarrow> ArgusState \<Rightarrow> os_call list \<Rightarrow> bool \<times> ArgusState \<times> os_call list" where
  "Argus_Init_defer success s t =
     (if \<not> success then (let (s', t') = Argus_Deinit s in (success, s', t @ t'))
      else (success, s, t))"

definition Argus_Init :: "Win32 \<Rightarrow> ArgusState \<Rightarrow> bool \<times> ArgusState \<times> os_call list" where
  "Argus_Init w s =
     (let s1 = s\<lparr>file_h := ret_OpenFileMappingW w\<rparr>;
          t1 = [OpenFileMappingW (file_h s1)]
      in if file_h s1 = 0 then Argus_Init_defer False s1 t1
         else
           let d = ret_MapViewOfFile w;
               t2 = t1 @ [MapViewOfFile (file_h s1) d]
           in if d = 0 then Argus_Init_defer False s1 t2
              else
                let s2 = s1\<lparr>data := d\<rparr>;
                    s3 = s2\<lparr>dataMutex := ret_OpenMutexW w\<rparr>;
                    t3 = t2 @ [OpenMutexW (dataMutex s3)]
                in if dataMutex s3 = 0 then Argus_Init_defer False s3 t3
                   else Argus_Init_defer True (s3\<lparr>initialized := True\<rparr>) t3)"

text \<open>The handle is attached when all of it is valid, detached when all of it is null.\<close>

definition attached :: "ArgusState \<Rightarrow> bool" where
  "attached s = (initialized s \<and> file_h s \<noteq> 0 \<and> data s \<noteq> 0 \<and> dataMutex s \<noteq> 0)"

definition detached :: "ArgusState \<Rightarrow> bool" where
  "detached s = (\<not> initialized s \<and> file_h s = 0 \<and> data s = 0 \<and> dataMutex s = 0)"

text \<open>Attach/detach cycles: any sequence of the two operations, each attach with its own outcome.\<close>

datatype handle_op = Attach Win32 | Detach

fun run_ops :: "handle_op list \<Rightarrow> ArgusState \<Rightarrow> ArgusState" where
  "run_ops [] s = s"
| "run_ops (Attach w # ops) s = run_ops ops (fst (snd (Argus_Init w s)))"
| "run_ops (Detach # ops) s = run_ops ops (fst (Argus_Deinit s))"

subsection \<open>Argus - Afterburner integration\<close>

text \<open>
  The scan of lines 169 to 178: \<open>i\<close> runs from 0 while \<open>i < sensorCount\<close>, the record read
  is \<open>SensorData[sensorOffset + i]\<close> with the sum in \<open>u32\<close>. The result is the index of the
  record the loop breaks at, or \<open>None\<close> when the loop runs out.
\<close>

function scan_sensors ::
  "ArgusMonitorSensorData list \<Rightarrow> u32 \<Rightarrow> u32 \<Rightarrow> u32 \<Rightarrow> fault + nat option" where
  "scan_sensors sd sensorOffset sensorCount i =
     (if i < sensorCount then
        (let k = unat (sensorOffset + i) in
         if k < length sd then
           (if wcscmp (Label (sd ! k)) T_Sensor = 0 then Inr (Some k)
            else scan_sensors sd sensorOffset sensorCount (i + 1))
         else Inl OutOfBounds)
      else Inr None)"
  by pat_completeness auto
termination
proof (relation "measure (\<lambda>(sd, sensorOffset, sensorCount, i). unat sensorCount - unat i)")
  show "wf (measure (\<lambda>(sd, sensorOffset, sensorCount, i). unat sensorCount - unat i))"
    by simp
next
  fix sd :: "ArgusMonitorSensorData list" and sensorOffset sensorCount i :: u32 and k :: nat
  assume "i < sensorCount"
  then have "unat i < unat sensorCount"
    by (simp add: word_less_nat_alt)
  moreover have "unat sensorCount < 2 ^ 32"
    using unsigned_less [of sensorCount] by simp
  ultimately have "unat i + 1 < 2 ^ 32"
    by simp
  then have "unat (i + 1) = Suc (unat i)"
    by (simp add: unat_word_ariths)
  with \<open>unat i < unat sensorCount\<close>
  show "((sd, sensorOffset, sensorCount, i + 1), (sd, sensorOffset, sensorCount, i))
      \<in> measure (\<lambda>(sd, sensorOffset, sensorCount, i). unat sensorCount - unat i)"
    by simp
qed

text \<open>
  Lines 162 to 178, the part the specification calls FindSensor: the mutex is taken, the
  offset and the count of the sensor type are read, the records are scanned, the pointer
  is stored when a record matches, and the deferred block releases the mutex.
  \<open>sensorTypeIndex\<close> is \<open>SENSOR_TYPE_TEMPERATURE\<close>, a constant of the absent header.
\<close>

definition FindSensor ::
  "nat \<Rightarrow> addr \<Rightarrow> ArgusMonitorData \<Rightarrow> HANDLE \<Rightarrow> ThreadState
     \<Rightarrow> fault + (ThreadState \<times> os_call list)" where
  "FindSensor sensorTypeIndex p d mutex ts =
     (if sensorTypeIndex < length (OffsetForSensorType d)
         \<and> sensorTypeIndex < length (SensorCount d) then
        (let sensorOffset = OffsetForSensorType d ! sensorTypeIndex;
             sensorCount = SensorCount d ! sensorTypeIndex
         in case scan_sensors (SensorData d) sensorOffset sensorCount 0 of
              Inl f \<Rightarrow> Inl f
            | Inr None \<Rightarrow> Inr (ts, [WaitForSingleObject mutex, ReleaseMutex mutex])
            | Inr (Some k) \<Rightarrow>
                Inr (ts\<lparr>waterSensor := Some (p, k)\<rparr>,
                     [WaitForSingleObject mutex, ReleaseMutex mutex]))
      else Inl OutOfBounds)"

text \<open>
  One iteration of the loop of \<open>Argus_Thread_Update\<close> (lines 149 to 180). The result of
  \<open>Argus_Init\<close> is not looked at; the next statement reads \<open>as.data->CycleCounter\<close>.
\<close>

definition Argus_Thread_Update_iteration ::
  "nat \<Rightarrow> Win32 \<Rightarrow> memory \<Rightarrow> ThreadState \<Rightarrow> ArgusState
     \<Rightarrow> fault + (ThreadState \<times> ArgusState \<times> os_call list)" where
  "Argus_Thread_Update_iteration sensorTypeIndex w mem ts as =
     (let (as1, t1) =
            (if \<not> initialized as then (snd (Argus_Init w as)) else (as, []))
      in case deref mem (data as1) of
           Inl f \<Rightarrow> Inl f
         | Inr d \<Rightarrow>
             let ts1 = ts\<lparr>dataAvailable :=
                          (dataAvailable ts \<and> lastCycleCounter ts \<le> CycleCounter d)\<rparr>
             in if \<not> dataAvailable ts1 then
                  (let ts2 = ts1\<lparr>lastCycleCounter := CycleCounter d\<rparr>;
                       ts3 = ts2\<lparr>dataAvailable := (Signature d = 0x4D677241)\<rparr>
                   in if dataAvailable ts3 then
                        (case FindSensor sensorTypeIndex (data as1) d (dataMutex as1) ts3 of
                           Inl f \<Rightarrow> Inl f
                         | Inr (ts4, t2) \<Rightarrow> Inr (ts4, as1, t1 @ t2 @ [Sleep 250]))
                      else Inr (ts3, as1, t1 @ [Sleep 250]))
                else Inr (ts1, as1, t1 @ [Sleep 250]))"

subsection \<open>Plugin API\<close>

text \<open>
  MONITORING\_SOURCE\_DESC (MSIAfterburnerMonitoringSourceDesc.h, not in the repository),
  with the fields the code initialises.
\<close>

record MONITORING_SOURCE_DESC =
  dwVersion :: u32
  szName :: string
  szUnits :: string
  szFormat :: string
  szGroup :: string
  dwID :: u32
  dwInstance :: u32
  fltMaxLimit :: f32
  fltMinLimit :: f32
  szNameTemplate :: string
  szGroupTemplate :: string

definition GetSourcesNum :: u32 where
  "GetSourcesNum = 1"

text \<open>
  \<open>GetSourceDesc\<close> writes the description through \<open>pDesc\<close> and returns TRUE. \<open>pDesc\<close> is
  the description found behind the pointer on entry. \<open>MONITORING_SOURCE_ID_PLUGIN_MOBO\<close> is
  a constant of the absent header and is a parameter. The units are the byte B0 (the degree
  sign in Windows-1252) and the letter C.
\<close>

definition GetSourceDesc ::
  "u32 \<Rightarrow> u32 \<Rightarrow> MONITORING_SOURCE_DESC \<Rightarrow> bool \<times> MONITORING_SOURCE_DESC" where
  "GetSourceDesc MONITORING_SOURCE_ID_PLUGIN_MOBO dwIndex pDesc =
     (True,
      \<lparr>dwVersion = dwVersion pDesc,
       szName = ''T Sensor'',
       szUnits = [CHR 0xB0, CHR ''C''],
       szFormat = ''%.0f'',
       szGroup = ''MOBO'',
       dwID = MONITORING_SOURCE_ID_PLUGIN_MOBO,
       dwInstance = 0,
       fltMaxLimit = 0,
       fltMinLimit = 100,
       szNameTemplate = [],
       szGroupTemplate = []\<rparr>)"

text \<open>\<open>FLT_MAX\<close> of float.h, the largest finite single-precision number.\<close>

definition FLT_MAX :: f32 where
  "FLT_MAX = (2 ^ 24 - 1) * 2 ^ 104"

text \<open>
  \<open>GetSourceData\<close> reads the global state and, through the cached pointer, the segment.
  \<open>to_f32\<close> is the conversion \<open>f32(...)\<close> of the value to single precision, which is not
  modelled further.
\<close>

definition GetSourceData :: "(real \<Rightarrow> f32) \<Rightarrow> memory \<Rightarrow> State \<Rightarrow> u32 \<Rightarrow> fault + f32" where
  "GetSourceData to_f32 mem state dwIndex =
     (case waterSensor (thread state) of
        None \<Rightarrow> Inr 0
      | Some sp \<Rightarrow>
          (case deref_sensor mem sp of
             Inl f \<Rightarrow> Inl f
           | Inr sensor \<Rightarrow>
               if Value sensor \<noteq> 0 then Inr (to_f32 (Value sensor)) else Inr 0))"

subsection \<open>Concrete scenarios\<close>

text \<open>
  Inputs at which the definitions are evaluated below: the outcomes of the opening calls
  with the publisher absent and running, a handle attached at address 100, segments with
  and without a record labelled "T Sensor" in the temperature category (sensor type 1),
  and thread states before and after resolution.
\<close>

definition publisher_absent :: Win32 where
  "publisher_absent = \<lparr>ret_OpenFileMappingW = 0, ret_MapViewOfFile = 0, ret_OpenMutexW = 0\<rparr>"

definition publisher_running :: Win32 where
  "publisher_running = \<lparr>ret_OpenFileMappingW = 5, ret_MapViewOfFile = 100, ret_OpenMutexW = 7\<rparr>"

definition mutex_missing :: Win32 where
  "mutex_missing = \<lparr>ret_OpenFileMappingW = 5, ret_MapViewOfFile = 100, ret_OpenMutexW = 0\<rparr>"

definition attached_100 :: ArgusState where
  "attached_100 = \<lparr>initialized = True, file_h = 5, data = 100, dataMutex = 7\<rparr>"

definition view_at :: "addr \<Rightarrow> ArgusMonitorData \<Rightarrow> memory" where
  "view_at a d = (\<lambda>p. if p = a then Some d else None)"

definition L_CPU :: "wchar list" where
  "L_CPU = [0x43, 0x50, 0x55, 0]"

definition segment_without_T_Sensor :: ArgusMonitorData where
  "segment_without_T_Sensor =
     \<lparr>Signature = 0x4D677241, CycleCounter = 3,
      OffsetForSensorType = [0, 0], SensorCount = [0, 1],
      SensorData = [\<lparr>Label = L_CPU, Value = 77\<rparr>]\<rparr>"

definition segment_with_duplicates :: ArgusMonitorData where
  "segment_with_duplicates =
     \<lparr>Signature = 0x4D677241, CycleCounter = 50,
      OffsetForSensorType = [0, 1, 3], SensorCount = [1, 2, 1],
      SensorData = [\<lparr>Label = T_Sensor, Value = 11\<rparr>,
                    \<lparr>Label = L_CPU, Value = 60\<rparr>,
                    \<lparr>Label = T_Sensor @ [0], Value = 42\<rparr>,
                    \<lparr>Label = T_Sensor, Value = 33\<rparr>]\<rparr>"

definition resolved_at_50 :: ThreadState where
  "resolved_at_50 =
     \<lparr>poll = True, dataAvailable = True, lastCycleCounter = 50, threadHandle = 9,
      waterSensor = Some (100, 0)\<rparr>"

definition unresolved :: ThreadState where
  "unresolved =
     \<lparr>poll = True, dataAvailable = False, lastCycleCounter = 0, threadHandle = 9,
      waterSensor = None\<rparr>"

section \<open>Properties\<close>

lemmas scenarios =
  publisher_absent_def publisher_running_def mutex_missing_def attached_100_def view_at_def
  L_CPU_def segment_without_T_Sensor_def segment_with_duplicates_def resolved_at_50_def
  unresolved_def T_Sensor_def

lemmas iteration_unfold =
  Argus_Thread_Update_iteration_def FindSensor_def deref_def deref_sensor_def
  Argus_Init_def Argus_Init_defer_def Argus_Deinit_def ArgusState_zero_def Let_def

subsection \<open>The shared-segment handle\<close>

lemma Argus_Deinit_state: "fst (Argus_Deinit s) = ArgusState_zero"
  by (simp add: Argus_Deinit_def Let_def)

lemma Argus_Deinit_calls:
  "snd (Argus_Deinit s) =
     map snd (filter fst
       [(dataMutex s \<noteq> 0, CloseHandle (dataMutex s)),
        (data s \<noteq> 0, UnmapViewOfFile (data s)),
        (file_h s \<noteq> 0, CloseHandle (file_h s))])"
  by (simp add: Argus_Deinit_def Let_def)

lemma detached_zero_iff: "detached s \<longleftrightarrow> s = ArgusState_zero"
  by (cases s) (auto simp add: detached_def ArgusState_zero_def)

lemma Argus_Deinit_zero: "Argus_Deinit ArgusState_zero = (ArgusState_zero, [])"
  by (simp add: Argus_Deinit_def ArgusState_zero_def)

text \<open>The four ways through \<open>Argus_Init\<close>, with the deferred block run.\<close>

lemma Argus_Init_cases:
  "Argus_Init w s =
    (if ret_OpenFileMappingW w = 0 then
       (False, ArgusState_zero,
        OpenFileMappingW 0 # snd (Argus_Deinit (s\<lparr>file_h := 0\<rparr>)))
     else if ret_MapViewOfFile w = 0 then
       (False, ArgusState_zero,
        [OpenFileMappingW (ret_OpenFileMappingW w), MapViewOfFile (ret_OpenFileMappingW w) 0]
          @ snd (Argus_Deinit (s\<lparr>file_h := ret_OpenFileMappingW w\<rparr>)))
     else if ret_OpenMutexW w = 0 then
       (False, ArgusState_zero,
        [OpenFileMappingW (ret_OpenFileMappingW w),
         MapViewOfFile (ret_OpenFileMappingW w) (ret_MapViewOfFile w),
         OpenMutexW 0, UnmapViewOfFile (ret_MapViewOfFile w),
         CloseHandle (ret_OpenFileMappingW w)])
     else
       (True,
        \<lparr>initialized = True, file_h = ret_OpenFileMappingW w, data = ret_MapViewOfFile w,
         dataMutex = ret_OpenMutexW w\<rparr>,
        [OpenFileMappingW (ret_OpenFileMappingW w),
         MapViewOfFile (ret_OpenFileMappingW w) (ret_MapViewOfFile w),
         OpenMutexW (ret_OpenMutexW w)]))"
  by (cases s)
    (simp add: Argus_Init_def Argus_Init_defer_def Argus_Deinit_def Let_def ArgusState_zero_def)

lemma Argus_Init_fail_held:
  "\<not> fst (Argus_Init w s) \<Longrightarrow> held (snd (snd (Argus_Init w s))) [] = []"
  by (simp add: Argus_Init_cases Argus_Deinit_def Let_def split: if_splits)

lemma Argus_Init_fail_detached:
  "\<not> fst (Argus_Init w s) \<Longrightarrow> fst (snd (Argus_Init w s)) = ArgusState_zero"
  by (simp add: Argus_Init_cases split: if_splits)

lemma Argus_Init_consistent:
  "attached (fst (snd (Argus_Init w s))) \<or> detached (fst (snd (Argus_Init w s)))"
  by (simp add: Argus_Init_cases attached_def detached_def ArgusState_zero_def)

lemma Argus_Init_no_wait: "WaitForSingleObject h \<notin> set (snd (snd (Argus_Init w s)))"
  by (simp add: Argus_Init_cases Argus_Deinit_def Let_def)

lemma run_ops_consistent:
  "attached s \<or> detached s \<Longrightarrow> attached (run_ops ops s) \<or> detached (run_ops ops s)"
proof (induction ops arbitrary: s)
  case Nil
  then show ?case by simp
next
  case (Cons a ops)
  show ?case
  proof (cases a)
    case (Attach w)
    then show ?thesis using Cons.IH [OF Argus_Init_consistent] by simp
  next
    case Detach
    have "detached (fst (Argus_Deinit s))"
      by (simp add: Argus_Deinit_state detached_zero_iff)
    then show ?thesis using Detach Cons.IH by simp
  qed
qed

text \<open>
  C6. When \<open>Argus_Init\<close> fails, whichever of the three opening calls failed, the state it
  leaves is fully detached and the calls it made leave no handle or view held: every
  resource it acquired was released before it returned. Over any sequence of attach and
  detach operations from the initial state, the handle is afterwards either attached (all
  of mapping handle, view pointer and mutex handle valid) or detached (all null), never in
  between.
\<close>

theorem Argus_Init_failure_detached_no_leak:
  "(\<not> fst (Argus_Init w s) \<longrightarrow>
      detached (fst (snd (Argus_Init w s))) \<and> held (snd (snd (Argus_Init w s))) [] = [])
   \<and> (attached (run_ops ops ArgusState_zero) \<or> detached (run_ops ops ArgusState_zero))"
proof -
  have "detached (fst (snd (Argus_Init w s)))" if "\<not> fst (Argus_Init w s)"
    using that by (simp add: Argus_Init_fail_detached detached_zero_iff)
  moreover have "detached ArgusState_zero"
    by (simp add: detached_zero_iff)
  ultimately show ?thesis
    using Argus_Init_fail_held [of w s] run_ops_consistent [of ArgusState_zero ops] by blast
qed

theorem Argus_Init_failure_detached_no_leak_witness:
  "\<not> fst (Argus_Init mutex_missing ArgusState_zero)
   \<and> detached (fst (snd (Argus_Init mutex_missing ArgusState_zero)))
   \<and> held (snd (snd (Argus_Init mutex_missing ArgusState_zero))) [] = []
   \<and> (attached (run_ops [Attach mutex_missing, Attach publisher_running, Detach] ArgusState_zero)
      \<or> detached (run_ops [Attach mutex_missing, Attach publisher_running, Detach] ArgusState_zero))"
proof -
  have h: "\<not> fst (Argus_Init mutex_missing ArgusState_zero)"
    by (simp add: Argus_Init_cases mutex_missing_def)
  show ?thesis
    using h Argus_Init_failure_detached_no_leak
      [of mutex_missing ArgusState_zero "[Attach mutex_missing, Attach publisher_running, Detach]"]
    by blast
qed

text \<open>
  C8. \<open>Argus_Deinit\<close> closes the mutex handle, unmaps the view and closes the mapping
  handle, in that order, skipping each one that is null; the state it leaves is the fully
  detached one. On a detached handle it makes no call and changes nothing, and a second
  \<open>Argus_Deinit\<close> after a first one makes no call and changes nothing: it is idempotent.
\<close>

theorem Argus_Deinit_order_idempotent:
  "snd (Argus_Deinit s) =
     map snd (filter fst
       [(dataMutex s \<noteq> 0, CloseHandle (dataMutex s)),
        (data s \<noteq> 0, UnmapViewOfFile (data s)),
        (file_h s \<noteq> 0, CloseHandle (file_h s))])
   \<and> detached (fst (Argus_Deinit s))
   \<and> (detached s \<longrightarrow> Argus_Deinit s = (s, []))
   \<and> Argus_Deinit (fst (Argus_Deinit s)) = (fst (Argus_Deinit s), [])"
  by (auto simp add: Argus_Deinit_calls Argus_Deinit_state Argus_Deinit_zero detached_zero_iff)

theorem Argus_Deinit_order_idempotent_witness:
  "snd (Argus_Deinit attached_100) = [CloseHandle 7, UnmapViewOfFile 100, CloseHandle 5]
   \<and> detached (fst (Argus_Deinit attached_100))
   \<and> detached ArgusState_zero
   \<and> Argus_Deinit ArgusState_zero = (ArgusState_zero, [])
   \<and> Argus_Deinit (fst (Argus_Deinit attached_100)) = (fst (Argus_Deinit attached_100), [])"
proof -
  have h: "detached ArgusState_zero"
    by (simp add: detached_zero_iff)
  have c: "map snd (filter fst
       [(dataMutex attached_100 \<noteq> 0, CloseHandle (dataMutex attached_100)),
        (data attached_100 \<noteq> 0, UnmapViewOfFile (data attached_100)),
        (file_h attached_100 \<noteq> 0, CloseHandle (file_h attached_100))])
     = [CloseHandle 7, UnmapViewOfFile 100, CloseHandle 5]"
    by (simp add: attached_100_def)
  show ?thesis
    using h c Argus_Deinit_order_idempotent [of attached_100]
      Argus_Deinit_order_idempotent [of ArgusState_zero]
    by simp
qed

subsection \<open>The sensor locator\<close>

text \<open>
  The scan from \<open>i\<close> on is a search for the first matching index in the rest of the
  sub-range, when the sub-range lies inside the array and the array is one a \<open>u32\<close> index
  can address.
\<close>

lemma scan_sensors_find:
  assumes "unat sensorOffset + unat sensorCount \<le> length sd" and "length sd \<le> 2 ^ 32"
    and "i \<le> sensorCount"
  shows "scan_sensors sd sensorOffset sensorCount i =
           Inr (List.find (\<lambda>k. wcscmp (Label (sd ! k)) T_Sensor = 0)
                  [unat sensorOffset + unat i ..< unat sensorOffset + unat sensorCount])"
  using assms
proof (induction sd sensorOffset sensorCount i rule: scan_sensors.induct)
  case (1 sd sensorOffset sensorCount i)
  show ?case
  proof (cases "i < sensorCount")
    case False
    with "1.prems" have "i = sensorCount" by simp
    then show ?thesis
      by (simp add: scan_sensors.simps [of sd sensorOffset sensorCount sensorCount])
  next
    case True
    then have lt: "unat i < unat sensorCount"
      by (simp add: word_less_nat_alt)
    have "unat sensorCount < 2 ^ 32"
      using unsigned_less [of sensorCount] by simp
    with lt have "unat i + 1 < 2 ^ 32" by simp
    then have suc: "unat (i + 1) = Suc (unat i)"
      by (simp add: unat_word_ariths)
    from lt "1.prems" have "unat sensorOffset + unat i < 2 ^ 32" by simp
    then have k: "unat (sensorOffset + i) = unat sensorOffset + unat i"
      by (simp add: unat_word_ariths)
    from lt "1.prems" have inb: "unat sensorOffset + unat i < length sd" by simp
    have le: "i + 1 \<le> sensorCount"
      using True by (simp add: inc_le)
    have range: "[unat sensorOffset + unat i ..< unat sensorOffset + unat sensorCount] =
        (unat sensorOffset + unat i)
          # [unat sensorOffset + unat (i + 1) ..< unat sensorOffset + unat sensorCount]"
      using lt suc by (simp add: upt_conv_Cons)
    show ?thesis
    proof (cases "wcscmp (Label (sd ! (unat sensorOffset + unat i))) T_Sensor = 0")
      case m: True
      then show ?thesis
        using True k inb range by (subst scan_sensors.simps) (simp add: Let_def)
    next
      case m: False
      have "scan_sensors sd sensorOffset sensorCount (i + 1) =
           Inr (List.find (\<lambda>k. wcscmp (Label (sd ! k)) T_Sensor = 0)
                  [unat sensorOffset + unat (i + 1) ..< unat sensorOffset + unat sensorCount])"
        using "1.IH" [OF True refl _ _ "1.prems"(1) "1.prems"(2) le] k inb m by simp
      then show ?thesis
        using True k inb range m by (subst scan_sensors.simps) (simp add: Let_def)
    qed
  qed
qed

text \<open>
  C7. For a segment whose sub-range \<open>[offset, offset + count)\<close> of the sensor type lies
  inside the record array, the scan does not fault and its result is decided by that
  sub-range alone: when it finds a record, that is the record of least index in the
  sub-range whose label compares equal to "T Sensor", and the cached pointer is set to it;
  when no record of the sub-range compares equal, the result is "not found" and the thread
  state, the cached pointer included, is left as it was. Records outside the sub-range
  play no part. In both cases the mutex is taken and released.
\<close>

theorem FindSensor_first_match_in_sub_range:
  assumes "sensorTypeIndex < length (OffsetForSensorType d)"
    and "sensorTypeIndex < length (SensorCount d)"
    and "OffsetForSensorType d ! sensorTypeIndex = sensorOffset"
    and "SensorCount d ! sensorTypeIndex = sensorCount"
    and "unat sensorOffset + unat sensorCount \<le> length (SensorData d)"
    and "length (SensorData d) \<le> 2 ^ 32"
  shows "\<exists>r. scan_sensors (SensorData d) sensorOffset sensorCount 0 = Inr r \<and>
     (case r of
        None \<Rightarrow>
          (\<forall>j. unat sensorOffset \<le> j \<and> j < unat sensorOffset + unat sensorCount \<longrightarrow>
                 wcscmp (Label (SensorData d ! j)) T_Sensor \<noteq> 0)
          \<and> FindSensor sensorTypeIndex p d mutex ts =
               Inr (ts, [WaitForSingleObject mutex, ReleaseMutex mutex])
      | Some k \<Rightarrow>
          unat sensorOffset \<le> k \<and> k < unat sensorOffset + unat sensorCount
          \<and> wcscmp (Label (SensorData d ! k)) T_Sensor = 0
          \<and> (\<forall>j. unat sensorOffset \<le> j \<and> j < k \<longrightarrow>
                 wcscmp (Label (SensorData d ! j)) T_Sensor \<noteq> 0)
          \<and> FindSensor sensorTypeIndex p d mutex ts =
               Inr (ts\<lparr>waterSensor := Some (p, k)\<rparr>,
                    [WaitForSingleObject mutex, ReleaseMutex mutex]))"
proof -
  let ?P = "\<lambda>k. wcscmp (Label (SensorData d ! k)) T_Sensor = 0"
  let ?xs = "[unat sensorOffset ..< unat sensorOffset + unat sensorCount]"
  have scan: "scan_sensors (SensorData d) sensorOffset sensorCount 0 = Inr (List.find ?P ?xs)"
    using scan_sensors_find [OF assms(5) assms(6), of 0] by simp
  show ?thesis
  proof (cases "List.find ?P ?xs")
    case None
    then have "\<forall>j. unat sensorOffset \<le> j \<and> j < unat sensorOffset + unat sensorCount
        \<longrightarrow> \<not> ?P j"
      by (auto simp: find_None_iff)
    moreover have "FindSensor sensorTypeIndex p d mutex ts =
               Inr (ts, [WaitForSingleObject mutex, ReleaseMutex mutex])"
      using assms(1-4) scan None by (simp add: FindSensor_def)
    ultimately show ?thesis using scan None by simp
  next
    case (Some k)
    then obtain i where i: "i < length ?xs" "?P (?xs ! i)" "k = ?xs ! i" "\<forall>j<i. \<not> ?P (?xs ! j)"
      by (auto simp: find_Some_iff)
    from i(1) have ilt: "i < unat sensorCount" by simp
    with i(3) have k: "k = unat sensorOffset + i" by simp
    have first: "\<not> ?P j" if "unat sensorOffset \<le> j" "j < k" for j
    proof -
      from that k have "j - unat sensorOffset < i" by simp
      with i(4) have "\<not> ?P (?xs ! (j - unat sensorOffset))" by blast
      moreover have "?xs ! (j - unat sensorOffset) = j"
        using that k ilt by simp
      ultimately show ?thesis by simp
    qed
    have "FindSensor sensorTypeIndex p d mutex ts =
               Inr (ts\<lparr>waterSensor := Some (p, k)\<rparr>,
                    [WaitForSingleObject mutex, ReleaseMutex mutex])"
      using assms(1-4) scan Some by (simp add: FindSensor_def)
    moreover have "?P k" using i(2,3) by simp
    ultimately show ?thesis using scan Some k ilt first by simp
  qed
qed

theorem FindSensor_first_match_in_sub_range_witness:
  "1 < length (OffsetForSensorType segment_with_duplicates)
   \<and> 1 < length (SensorCount segment_with_duplicates)
   \<and> OffsetForSensorType segment_with_duplicates ! 1 = 1
   \<and> SensorCount segment_with_duplicates ! 1 = 2
   \<and> unat (1 :: u32) + unat (2 :: u32) \<le> length (SensorData segment_with_duplicates)
   \<and> length (SensorData segment_with_duplicates) \<le> 2 ^ 32
   \<and> wcscmp (Label (SensorData segment_with_duplicates ! 0)) T_Sensor = 0
   \<and> wcscmp (Label (SensorData segment_with_duplicates ! 3)) T_Sensor = 0
   \<and> scan_sensors (SensorData segment_with_duplicates) 1 2 0 = Inr (Some 2)
   \<and> FindSensor 1 100 segment_with_duplicates 7 unresolved =
       Inr (unresolved\<lparr>waterSensor := Some (100, 2)\<rparr>,
            [WaitForSingleObject 7, ReleaseMutex 7])"
proof -
  have h1: "1 < length (OffsetForSensorType segment_with_duplicates)"
    and h2: "1 < length (SensorCount segment_with_duplicates)"
    and h3: "OffsetForSensorType segment_with_duplicates ! 1 = 1"
    and h4: "SensorCount segment_with_duplicates ! 1 = 2"
    and h5: "unat (1 :: u32) + unat (2 :: u32) \<le> length (SensorData segment_with_duplicates)"
    and h6: "length (SensorData segment_with_duplicates) \<le> 2 ^ 32"
    by (simp_all add: segment_with_duplicates_def)
  have out: "wcscmp (Label (SensorData segment_with_duplicates ! 0)) T_Sensor = 0"
    "wcscmp (Label (SensorData segment_with_duplicates ! 3)) T_Sensor = 0"
    by (simp_all add: scenarios)
  have s: "scan_sensors (SensorData segment_with_duplicates) 1 2 0 = Inr (Some 2)"
    by (simp add: scenarios)
  from FindSensor_first_match_in_sub_range [OF h1 h2 h3 h4 h5 h6, of 100 7 unresolved] s
  have "FindSensor 1 100 segment_with_duplicates 7 unresolved =
       Inr (unresolved\<lparr>waterSensor := Some (100, 2)\<rparr>,
            [WaitForSingleObject 7, ReleaseMutex 7])"
    by auto
  with h1 h2 h3 h4 h5 h6 out s show ?thesis
    by blast
qed

subsection \<open>The poller\<close>

text \<open>
  C3. The claim is that an iteration with a detached handle only attempts the attach and
  reads no field of the segment. The code calls \<open>Argus_Init\<close>, ignores its result, and
  reads \<open>as.data->CycleCounter\<close>: when the attach fails the handle has been reset, \<open>data\<close>
  is null, and the iteration dereferences the null pointer.
\<close>

theorem iteration_faults_when_attach_fails:
  assumes "\<not> initialized as" and "\<not> fst (Argus_Init w as)"
  shows "Argus_Thread_Update_iteration sensorTypeIndex w mem ts as = Inl NullDereference"
proof -
  have "data (fst (snd (Argus_Init w as))) = 0"
    using assms(2) by (simp add: Argus_Init_fail_detached ArgusState_zero_def)
  then show ?thesis
    using assms(1) by (simp add: Argus_Thread_Update_iteration_def deref_def split_beta)
qed

theorem iteration_faults_when_attach_fails_witness:
  "\<not> initialized ArgusState_zero
   \<and> \<not> fst (Argus_Init publisher_absent ArgusState_zero)
   \<and> Argus_Thread_Update_iteration 1 publisher_absent (\<lambda>p. None) ThreadState_zero
        ArgusState_zero = Inl NullDereference"
proof -
  have h1: "\<not> initialized ArgusState_zero"
    by (simp add: ArgusState_zero_def)
  have h2: "\<not> fst (Argus_Init publisher_absent ArgusState_zero)"
    by (simp add: Argus_Init_cases publisher_absent_def)
  show ?thesis
    using h1 h2
      iteration_faults_when_attach_fails [OF h1 h2, of 1 "\<lambda>p. None" ThreadState_zero]
    by blast
qed

text \<open>
  C9. An iteration that starts with the availability flag set and reads a cycle counter
  that is not below the last one seen leaves the thread state exactly as it was (flag,
  last cycle counter and cached pointer); it only sleeps, after the attach if the handle
  was not initialised.
\<close>

theorem resolved_steady_iteration_noop:
  assumes "dataAvailable ts"
    and "(if \<not> initialized as then snd (Argus_Init w as) else (as, [])) = (as1, t1)"
    and "deref mem (data as1) = Inr d"
    and "lastCycleCounter ts \<le> CycleCounter d"
  shows "Argus_Thread_Update_iteration sensorTypeIndex w mem ts as =
           Inr (ts, as1, t1 @ [Sleep 250])"
  using assms by (simp add: Argus_Thread_Update_iteration_def)

theorem resolved_steady_iteration_noop_witness:
  "dataAvailable resolved_at_50
   \<and> (if \<not> initialized attached_100 then snd (Argus_Init publisher_running attached_100)
       else (attached_100, [])) = (attached_100, [])
   \<and> deref (view_at 100 segment_with_duplicates) (data attached_100)
       = Inr segment_with_duplicates
   \<and> lastCycleCounter resolved_at_50 \<le> CycleCounter segment_with_duplicates
   \<and> Argus_Thread_Update_iteration 1 publisher_running (view_at 100 segment_with_duplicates)
        resolved_at_50 attached_100 = Inr (resolved_at_50, attached_100, [Sleep 250])"
proof -
  have h1: "dataAvailable resolved_at_50"
    by (simp add: resolved_at_50_def)
  have h2: "(if \<not> initialized attached_100
             then snd (Argus_Init publisher_running attached_100)
             else (attached_100, [])) = (attached_100, [])"
    by (simp add: attached_100_def)
  have h3: "deref (view_at 100 segment_with_duplicates) (data attached_100)
       = Inr segment_with_duplicates"
    by (simp add: deref_def view_at_def attached_100_def)
  have h4: "lastCycleCounter resolved_at_50 \<le> CycleCounter segment_with_duplicates"
    by (simp add: resolved_at_50_def segment_with_duplicates_def)
  show ?thesis
    using h1 h2 h3 h4 resolved_steady_iteration_noop [OF h1 h2 h3 h4, of 1]
    by simp
qed

text \<open>
  The two ways through an iteration on a readable segment: the steady one, and the one
  that enters the block of line 156.
\<close>

lemma iteration_steady:
  assumes "(if \<not> initialized as then snd (Argus_Init w as) else (as, [])) = (as1, t1)"
    and "deref mem (data as1) = Inr d"
    and "dataAvailable ts \<and> lastCycleCounter ts \<le> CycleCounter d"
  shows "Argus_Thread_Update_iteration sensorTypeIndex w mem ts as =
           Inr (ts, as1, t1 @ [Sleep 250])"
  using assms by (simp add: Argus_Thread_Update_iteration_def)

lemma iteration_resolving:
  assumes "(if \<not> initialized as then snd (Argus_Init w as) else (as, [])) = (as1, t1)"
    and "deref mem (data as1) = Inr d"
    and "\<not> (dataAvailable ts \<and> lastCycleCounter ts \<le> CycleCounter d)"
  shows "Argus_Thread_Update_iteration sensorTypeIndex w mem ts as =
    (if Signature d = 0x4D677241 then
       (case FindSensor sensorTypeIndex (data as1) d (dataMutex as1)
               (ts\<lparr>lastCycleCounter := CycleCounter d, dataAvailable := True\<rparr>) of
          Inl f \<Rightarrow> Inl f
        | Inr (ts4, t2) \<Rightarrow> Inr (ts4, as1, t1 @ t2 @ [Sleep 250]))
     else Inr (ts\<lparr>lastCycleCounter := CycleCounter d, dataAvailable := False\<rparr>, as1,
               t1 @ [Sleep 250]))"
  using assms by (cases ts) (auto simp add: Argus_Thread_Update_iteration_def)

text \<open>An iteration that completes has read a segment through the handle it leaves.\<close>

lemma iteration_Inr_parts:
  assumes "Argus_Thread_Update_iteration sensorTypeIndex w mem ts as = Inr (ts', as', t)"
  shows "\<exists>t1 d. (if \<not> initialized as then snd (Argus_Init w as) else (as, [])) = (as', t1)
            \<and> deref mem (data as') = Inr d"
proof -
  obtain as1 t1 where
    a: "(if \<not> initialized as then snd (Argus_Init w as) else (as, [])) = (as1, t1)"
    by (cases "if \<not> initialized as then snd (Argus_Init w as) else (as, [])") simp
  obtain d where d: "deref mem (data as1) = Inr d"
    using assms a
    by (cases "deref mem (data as1)") (auto simp add: Argus_Thread_Update_iteration_def)
  have "as' = as1"
  proof (cases "dataAvailable ts \<and> lastCycleCounter ts \<le> CycleCounter d")
    case True
    then show ?thesis
      using assms iteration_steady [OF a d, of ts sensorTypeIndex] by simp
  next
    case False
    then show ?thesis
      using assms iteration_resolving [OF a d False, of sensorTypeIndex]
      by (auto split: if_splits sum.splits)
  qed
  with a d show ?thesis by blast
qed

text \<open>What a completed run of the locator does to the thread state.\<close>

lemma FindSensor_Inr:
  assumes "FindSensor sensorTypeIndex p d mutex ts = Inr (ts', t)"
  shows "\<exists>r. scan_sensors (SensorData d) (OffsetForSensorType d ! sensorTypeIndex)
                  (SensorCount d ! sensorTypeIndex) 0 = Inr r
     \<and> ts' = (case r of None \<Rightarrow> ts | Some k \<Rightarrow> ts\<lparr>waterSensor := Some (p, k)\<rparr>)
     \<and> t = [WaitForSingleObject mutex, ReleaseMutex mutex]"
proof -
  from assms have inb: "sensorTypeIndex < length (OffsetForSensorType d)
         \<and> sensorTypeIndex < length (SensorCount d)"
    by (simp add: FindSensor_def split: if_splits)
  obtain r where
    r: "scan_sensors (SensorData d) (OffsetForSensorType d ! sensorTypeIndex)
                  (SensorCount d ! sensorTypeIndex) 0 = Inr r"
    using assms inb
    by (cases "scan_sensors (SensorData d) (OffsetForSensorType d ! sensorTypeIndex)
                  (SensorCount d ! sensorTypeIndex) 0") (simp_all add: FindSensor_def)
  have "ts' = (case r of None \<Rightarrow> ts | Some k \<Rightarrow> ts\<lparr>waterSensor := Some (p, k)\<rparr>)
     \<and> t = [WaitForSingleObject mutex, ReleaseMutex mutex]"
    using assms inb r by (cases r) (auto simp add: FindSensor_def)
  with r show ?thesis by blast
qed

text \<open>
  C4, as stated. The claim is that from the unresolved state the state becomes resolved
  only when the signature matches and a record is found, and stays unresolved when no
  record is found. With a matching signature and no record labelled "T Sensor" in the
  temperature sub-range, the scan finds nothing and the iteration sets the availability
  flag all the same. The machine is then in its steady state: the next iteration, on a
  segment that does hold such a record, does not run the locator.
\<close>

theorem unresolved_resolves_without_sensor:
  "\<not> dataAvailable unresolved
   \<and> Signature segment_without_T_Sensor = 0x4D677241
   \<and> scan_sensors (SensorData segment_without_T_Sensor) 0 1 0 = Inr None
   \<and> Argus_Thread_Update_iteration 1 publisher_running (view_at 100 segment_without_T_Sensor)
        unresolved attached_100 =
      Inr (unresolved\<lparr>dataAvailable := True, lastCycleCounter := 3\<rparr>, attached_100,
           [WaitForSingleObject 7, ReleaseMutex 7, Sleep 250])
   \<and> scan_sensors (SensorData segment_with_duplicates) 1 2 0 = Inr (Some 2)
   \<and> Argus_Thread_Update_iteration 1 publisher_running (view_at 100 segment_with_duplicates)
        (unresolved\<lparr>dataAvailable := True, lastCycleCounter := 3\<rparr>) attached_100 =
      Inr (unresolved\<lparr>dataAvailable := True, lastCycleCounter := 3\<rparr>, attached_100,
           [Sleep 250])"
  by (simp add: scenarios iteration_unfold)

text \<open>
  C4, amended. For an iteration that starts with the availability flag clear and
  completes: the flag afterwards is set exactly when the signature of the segment equals
  0x4D677241, whether or not a record is found, and the last cycle counter is the one
  read. When the signature differs, the locator is not run: the mutex is not waited for and
  the cached pointer is unchanged. When the signature matches, the scan is run, and the
  cached pointer is set to the record found, or left unchanged when none is found.
\<close>

theorem unresolved_iteration_follows_signature:
  assumes "\<not> dataAvailable ts"
    and "Argus_Thread_Update_iteration sensorTypeIndex w mem ts as = Inr (ts', as', t)"
  shows "\<exists>d. deref mem (data as') = Inr d
     \<and> dataAvailable ts' = (Signature d = 0x4D677241)
     \<and> lastCycleCounter ts' = CycleCounter d
     \<and> (Signature d \<noteq> 0x4D677241 \<longrightarrow>
          waterSensor ts' = waterSensor ts \<and> (\<forall>h. WaitForSingleObject h \<notin> set t))
     \<and> (Signature d = 0x4D677241 \<longrightarrow>
          (\<exists>r. scan_sensors (SensorData d) (OffsetForSensorType d ! sensorTypeIndex)
                  (SensorCount d ! sensorTypeIndex) 0 = Inr r
               \<and> waterSensor ts' =
                   (case r of None \<Rightarrow> waterSensor ts | Some k \<Rightarrow> Some (data as', k))))"
proof -
  from iteration_Inr_parts [OF assms(2)] obtain t1 d where
    a: "(if \<not> initialized as then snd (Argus_Init w as) else (as, [])) = (as', t1)"
    and d: "deref mem (data as') = Inr d"
    by blast
  have nowait: "WaitForSingleObject h \<notin> set t1" for h
    using a Argus_Init_no_wait [of h w as] by (auto split: if_splits)
  have n: "\<not> (dataAvailable ts \<and> lastCycleCounter ts \<le> CycleCounter d)"
    using assms(1) by simp
  note it = iteration_resolving [OF a d n, of sensorTypeIndex]
  show ?thesis
  proof (cases "Signature d = 0x4D677241")
    case False
    with it assms(2)
    have "ts' = ts\<lparr>lastCycleCounter := CycleCounter d, dataAvailable := False\<rparr>"
      "t = t1 @ [Sleep 250]"
      by simp_all
    with False d nowait show ?thesis by auto
  next
    case True
    let ?ts3 = "ts\<lparr>lastCycleCounter := CycleCounter d, dataAvailable := True\<rparr>"
    from it assms(2) True obtain t2 where
      f: "FindSensor sensorTypeIndex (data as') d (dataMutex as') ?ts3 = Inr (ts', t2)"
      by (auto split: sum.splits)
    from FindSensor_Inr [OF f] obtain r where
      r: "scan_sensors (SensorData d) (OffsetForSensorType d ! sensorTypeIndex)
                  (SensorCount d ! sensorTypeIndex) 0 = Inr r"
      and ts': "ts' =
        (case r of None \<Rightarrow> ?ts3 | Some k \<Rightarrow> ?ts3\<lparr>waterSensor := Some (data as', k)\<rparr>)"
      by blast
    from ts' have "dataAvailable ts'" "lastCycleCounter ts' = CycleCounter d"
      "waterSensor ts' = (case r of None \<Rightarrow> waterSensor ts | Some k \<Rightarrow> Some (data as', k))"
      by (simp_all split: option.splits)
    with True d r show ?thesis by auto
  qed
qed

theorem unresolved_iteration_follows_signature_witness:
  "\<not> dataAvailable unresolved
   \<and> Argus_Thread_Update_iteration 1 publisher_running (view_at 100 segment_with_duplicates)
        unresolved ArgusState_zero =
      Inr (unresolved\<lparr>dataAvailable := True, lastCycleCounter := 50,
                      waterSensor := Some (100, 2)\<rparr>,
           attached_100,
           [OpenFileMappingW 5, MapViewOfFile 5 100, OpenMutexW 7,
            WaitForSingleObject 7, ReleaseMutex 7, Sleep 250])
   \<and> (\<exists>d. deref (view_at 100 segment_with_duplicates) (data attached_100) = Inr d
     \<and> dataAvailable (unresolved\<lparr>dataAvailable := True, lastCycleCounter := 50,
                      waterSensor := Some (100, 2)\<rparr>) = (Signature d = 0x4D677241)
     \<and> (Signature d = 0x4D677241 \<longrightarrow>
          (\<exists>r. scan_sensors (SensorData d) (OffsetForSensorType d ! 1)
                  (SensorCount d ! 1) 0 = Inr r
               \<and> waterSensor (unresolved\<lparr>dataAvailable := True, lastCycleCounter := 50,
                      waterSensor := Some (100, 2)\<rparr>) =
                   (case r of None \<Rightarrow> waterSensor unresolved
                    | Some k \<Rightarrow> Some (data attached_100, k)))))"
proof -
  have h1: "\<not> dataAvailable unresolved"
    by (simp add: unresolved_def)
  have h2: "Argus_Thread_Update_iteration 1 publisher_running
        (view_at 100 segment_with_duplicates) unresolved ArgusState_zero =
      Inr (unresolved\<lparr>dataAvailable := True, lastCycleCounter := 50,
                      waterSensor := Some (100, 2)\<rparr>,
           attached_100,
           [OpenFileMappingW 5, MapViewOfFile 5 100, OpenMutexW 7,
            WaitForSingleObject 7, ReleaseMutex 7, Sleep 250])"
    by (simp add: scenarios iteration_unfold)
  show ?thesis
    using h1 h2 unresolved_iteration_follows_signature [OF h1 h2]
    by blast
qed

text \<open>
  C2. The claim is that an iteration which finds the cycle counter below the last one
  seen, with the availability flag set, clears the cached pointer, so that no later read
  goes through the old record. The code has no assignment that clears \<open>waterSensor\<close>:
  such an iteration, when it completes, leaves a pointer that was set still set, and leaves
  it where it was when the signature does not match or the rescan finds no record.
\<close>

theorem restart_keeps_cached_sensor:
  assumes "dataAvailable ts"
    and "waterSensor ts = Some sp"
    and "Argus_Thread_Update_iteration sensorTypeIndex w mem ts as = Inr (ts', as', t)"
    and "deref mem (data as') = Inr d"
    and "CycleCounter d < lastCycleCounter ts"
  shows "waterSensor ts' \<noteq> None
     \<and> (Signature d \<noteq> 0x4D677241 \<longrightarrow> waterSensor ts' = Some sp)
     \<and> (scan_sensors (SensorData d) (OffsetForSensorType d ! sensorTypeIndex)
           (SensorCount d ! sensorTypeIndex) 0 = Inr None \<longrightarrow> waterSensor ts' = Some sp)"
proof -
  from iteration_Inr_parts [OF assms(3)] assms(4) obtain t1 where
    a: "(if \<not> initialized as then snd (Argus_Init w as) else (as, [])) = (as', t1)"
    by blast
  have n: "\<not> (dataAvailable ts \<and> lastCycleCounter ts \<le> CycleCounter d)"
    using assms(5) by (simp add: not_le)
  note it = iteration_resolving [OF a assms(4) n, of sensorTypeIndex]
  show ?thesis
  proof (cases "Signature d = 0x4D677241")
    case False
    with it assms(3) have "ts' = ts\<lparr>lastCycleCounter := CycleCounter d, dataAvailable := False\<rparr>"
      by simp
    with False assms(2) show ?thesis by simp
  next
    case True
    let ?ts3 = "ts\<lparr>lastCycleCounter := CycleCounter d, dataAvailable := True\<rparr>"
    from it assms(3) True obtain t2 where
      f: "FindSensor sensorTypeIndex (data as') d (dataMutex as') ?ts3 = Inr (ts', t2)"
      by (auto split: sum.splits)
    from FindSensor_Inr [OF f] obtain r where
      r: "scan_sensors (SensorData d) (OffsetForSensorType d ! sensorTypeIndex)
                  (SensorCount d ! sensorTypeIndex) 0 = Inr r"
      and ts': "ts' = (case r of None \<Rightarrow> ?ts3 | Some k \<Rightarrow> ?ts3\<lparr>waterSensor := Some (data as', k)\<rparr>)"
      by blast
    from ts' assms(2) have "waterSensor ts' = (case r of None \<Rightarrow> Some sp | Some k \<Rightarrow> Some (data as', k))"
      by (simp split: option.splits)
    with r True show ?thesis by (auto split: option.splits)
  qed
qed

text \<open>
  The iteration below detects the restart (counter 3 after 50), rescans, finds no record
  labelled "T Sensor", and leaves the pointer at record 0; the next \<open>GetSourceData\<close>
  returns 77, the value of the record that now lies there.
\<close>

theorem restart_keeps_cached_sensor_witness:
  "dataAvailable resolved_at_50
   \<and> waterSensor resolved_at_50 = Some (100, 0)
   \<and> Argus_Thread_Update_iteration 1 publisher_running (view_at 100 segment_without_T_Sensor)
        resolved_at_50 attached_100 =
      Inr (resolved_at_50\<lparr>lastCycleCounter := 3\<rparr>, attached_100,
           [WaitForSingleObject 7, ReleaseMutex 7, Sleep 250])
   \<and> deref (view_at 100 segment_without_T_Sensor) (data attached_100)
       = Inr segment_without_T_Sensor
   \<and> CycleCounter segment_without_T_Sensor < lastCycleCounter resolved_at_50
   \<and> scan_sensors (SensorData segment_without_T_Sensor)
        (OffsetForSensorType segment_without_T_Sensor ! 1)
        (SensorCount segment_without_T_Sensor ! 1) 0 = Inr None
   \<and> waterSensor (resolved_at_50\<lparr>lastCycleCounter := 3\<rparr>) = Some (100, 0)
   \<and> GetSourceData (\<lambda>x. x) (view_at 100 segment_without_T_Sensor)
        \<lparr>argus = attached_100, thread = resolved_at_50\<lparr>lastCycleCounter := 3\<rparr>\<rparr> 0 = Inr 77"
proof -
  have h1: "dataAvailable resolved_at_50"
    and h2: "waterSensor resolved_at_50 = Some (100, 0)"
    by (simp_all add: resolved_at_50_def)
  have h3: "Argus_Thread_Update_iteration 1 publisher_running
        (view_at 100 segment_without_T_Sensor) resolved_at_50 attached_100 =
      Inr (resolved_at_50\<lparr>lastCycleCounter := 3\<rparr>, attached_100,
           [WaitForSingleObject 7, ReleaseMutex 7, Sleep 250])"
    by (simp add: scenarios iteration_unfold)
  have h4: "deref (view_at 100 segment_without_T_Sensor) (data attached_100)
       = Inr segment_without_T_Sensor"
    by (simp add: deref_def view_at_def attached_100_def)
  have h5: "CycleCounter segment_without_T_Sensor < lastCycleCounter resolved_at_50"
    by (simp add: resolved_at_50_def segment_without_T_Sensor_def)
  have s: "scan_sensors (SensorData segment_without_T_Sensor)
        (OffsetForSensorType segment_without_T_Sensor ! 1)
        (SensorCount segment_without_T_Sensor ! 1) 0 = Inr None"
    by (simp add: scenarios)
  have g: "GetSourceData (\<lambda>x. x) (view_at 100 segment_without_T_Sensor)
        \<lparr>argus = attached_100, thread = resolved_at_50\<lparr>lastCycleCounter := 3\<rparr>\<rparr> 0 = Inr 77"
    by (simp add: scenarios GetSourceData_def deref_sensor_def deref_def)
  show ?thesis
    using h1 h2 h3 h4 h5 s g restart_keeps_cached_sensor [OF h1 h2 h3 h4 h5]
    by blast
qed

subsection \<open>Plugin API\<close>

text \<open>
  C1. The claim is that \<open>GetSourceData\<close> returns the invalid marker \<open>FLT_MAX\<close> when no
  sensor is resolved. The comment in the code names \<open>FLT_MAX\<close> as the invalid value, and
  the statement under it is \<open>return 0\<close>: with a null cached pointer the result is 0,
  which is not \<open>FLT_MAX\<close>.
\<close>

theorem GetSourceData_unresolved_returns_zero:
  "waterSensor (thread state) = None \<Longrightarrow>
     GetSourceData to_f32 mem state dwIndex = Inr 0
     \<and> GetSourceData to_f32 mem state dwIndex \<noteq> Inr FLT_MAX"
  by (simp add: GetSourceData_def FLT_MAX_def)

theorem GetSourceData_unresolved_returns_zero_witness:
  "waterSensor (thread State_zero) = None
   \<and> GetSourceData (\<lambda>x. x) (\<lambda>p. None) State_zero 0 = Inr 0
   \<and> GetSourceData (\<lambda>x. x) (\<lambda>p. None) State_zero 0 \<noteq> Inr FLT_MAX"
proof -
  have h: "waterSensor (thread State_zero) = None"
    by (simp add: State_zero_def ThreadState_zero_def)
  show ?thesis
    using h GetSourceData_unresolved_returns_zero [OF h, of "\<lambda>x. x" "\<lambda>p. None" 0]
    by blast
qed

text \<open>
  C5. The claim is a display range from minimum 0 to maximum 100. \<open>GetSourceDesc\<close> writes
  the name "T Sensor", the units, the group "MOBO", the motherboard plugin id and instance 0
  as claimed, for every index and with no access to the poller state, but it writes 0 to
  \<open>fltMaxLimit\<close> and 100 to \<open>fltMinLimit\<close>: the maximum is below the minimum.
\<close>

theorem GetSourceDesc_limits_swapped:
  "GetSourceDesc mobo dwIndex pDesc =
     (True,
      \<lparr>dwVersion = dwVersion pDesc, szName = ''T Sensor'', szUnits = [CHR 0xB0, CHR ''C''],
       szFormat = ''%.0f'', szGroup = ''MOBO'', dwID = mobo, dwInstance = 0,
       fltMaxLimit = 0, fltMinLimit = 100, szNameTemplate = [], szGroupTemplate = []\<rparr>)
   \<and> fltMaxLimit (snd (GetSourceDesc mobo dwIndex pDesc)) = 0
   \<and> fltMinLimit (snd (GetSourceDesc mobo dwIndex pDesc)) = 100
   \<and> fltMaxLimit (snd (GetSourceDesc mobo dwIndex pDesc))
       < fltMinLimit (snd (GetSourceDesc mobo dwIndex pDesc))"
  by (simp add: GetSourceDesc_def)

text \<open>
  C10. The index is ignored: \<open>GetSourceDesc\<close> and \<open>GetSourceData\<close> give the same result
  for any two indices in the same state, \<open>GetSourceDesc\<close> returns TRUE for every index (no
  bounds check), and \<open>GetSourcesNum\<close>, which takes no index, is 1.
\<close>

theorem plugin_api_ignores_index:
  "GetSourceDesc mobo i pDesc = GetSourceDesc mobo j pDesc
   \<and> fst (GetSourceDesc mobo i pDesc)
   \<and> GetSourceData to_f32 mem state i = GetSourceData to_f32 mem state j
   \<and> GetSourcesNum = 1"
  by (simp add: GetSourceDesc_def GetSourceData_def GetSourcesNum_def)

end
